theory Spec2Isabelle
  imports Complex_Main "HOL-Library.AList"
begin

section \<open>Python values, exceptions and the outside world\<close>

text \<open>
  The two scripts (\<^verbatim>\<open>fetchNews.py\<close>, \<^verbatim>\<open>analyzeSentiment.py\<close>) only handle values that
  come out of a JSON parser, so a Python value is one of the JSON shapes. \<open>PNone\<close> is
  both JSON \<^verbatim>\<open>null\<close> and Python's \<^verbatim>\<open>None\<close>, the value the functions return on a
  handled failure. A \<^verbatim>\<open>dict\<close> is an association list in insertion order, looked up
  with \<open>map_of\<close> and written with \<open>AList.update\<close> (an existing key keeps its place,
  a new key goes to the end, as in Python). A float is a real number; NaN and the
  infinities are not represented.
\<close>

datatype pyval =
    PNone
  | PBool bool
  | PInt int
  | PFloat real
  | PStr string
  | PList "pyval list"
  | PDict "(string \<times> pyval) list"

text \<open>
  Exceptions are values. \<open>RequestException c m\<close> stands for the class
  \<^verbatim>\<open>requests.exceptions.RequestException\<close> and all its subclasses (\<open>c\<close> names the
  subclass: HTTPError, ConnectionError, Timeout, ...), with message \<open>m\<close>;
  \<open>ExternalError c m\<close> is any other exception raised inside a library.
\<close>

datatype pyerr =
    NameError string
  | FileNotFoundError string
  | AttributeError string
  | TypeError string
  | IndexError string
  | KeyError string
  | RequestException string string
  | ExternalError string string

text \<open>
  The world the scripts act on: the regular files that can be read (path to
  contents), the directories made, the lines printed to the console, and the HTTP
  requests sent (URL and query parameters), in order.
\<close>

record world =
  files :: "string \<rightharpoonup> string"
  dirs :: "string list"
  stdout :: "string list"
  net_log :: "(string \<times> (string \<times> pyval) list) list"

text \<open>
  What \<^verbatim>\<open>requests.get\<close> hands back: the code only calls
  \<^verbatim>\<open>raise_for_status()\<close> and \<^verbatim>\<open>json()\<close> on it, so a response is what these two
  calls do. Which status codes make \<^verbatim>\<open>raise_for_status\<close> raise is decided inside
  the \<^verbatim>\<open>requests\<close> library.
\<close>

record response =
  raise_for_status :: "pyerr option"
  json_body :: "pyerr + pyval"

text \<open>
  Everything the scripts import or read from their environment, as parameters:
  the value of \<^verbatim>\<open>os.getenv('NEWS_API_KEY')\<close>, \<^verbatim>\<open>requests.get\<close>, the
  \<^verbatim>\<open>transformers.pipeline\<close> factory (which returns the classifier),
  \<^verbatim>\<open>json.load\<close> and \<^verbatim>\<open>json.dump\<close> on file contents, the \<^verbatim>\<open>:.2f\<close> format, the
  text an f-string gives a value that is not a string,
  \<^verbatim>\<open>os.path.dirname(__file__)\<close>, and the exception \<^verbatim>\<open>open(path, 'r')\<close> raises for a
  path that names no readable file: FileNotFoundError when nothing is there, but
  IsADirectoryError for a directory, NotADirectoryError for a path below a regular
  file, PermissionError and so on.
\<close>

record ext =
  API_KEY :: "string option"
  requests_get :: "string \<Rightarrow> (string \<times> pyval) list \<Rightarrow> pyerr + response"
  pipeline :: "string \<Rightarrow> pyerr + (pyval \<Rightarrow> pyerr + pyval)"
  json_load :: "string \<Rightarrow> pyerr + pyval"
  json_dump :: "pyval \<Rightarrow> pyerr + string"
  format_2f :: "pyval \<Rightarrow> pyerr + string"
  format_other :: "pyval \<Rightarrow> string"
  script_dir :: string
  open_error :: "string \<Rightarrow> pyerr"

section \<open>Python primitives the scripts use\<close>

definition py_print :: "string \<Rightarrow> world \<Rightarrow> world" where
  "py_print s w = w\<lparr>stdout := stdout w @ [s]\<rparr>"

text \<open>\<^verbatim>\<open>not v\<close> is \<open>\<not> truthy v\<close>.\<close>

fun truthy :: "pyval \<Rightarrow> bool" where
  "truthy PNone = False"
| "truthy (PBool b) = b"
| "truthy (PInt i) = (i \<noteq> 0)"
| "truthy (PFloat r) = (r \<noteq> 0)"
| "truthy (PStr s) = (s \<noteq> [])"
| "truthy (PList xs) = (xs \<noteq> [])"
| "truthy (PDict d) = (d \<noteq> [])"

text \<open>\<^verbatim>\<open>obj.get(key, default)\<close>: only a dict has the method.\<close>

fun py_get :: "pyval \<Rightarrow> string \<Rightarrow> pyval \<Rightarrow> pyerr + pyval" where
  "py_get (PDict d) k dflt = Inr (case map_of d k of None \<Rightarrow> dflt | Some v \<Rightarrow> v)"
| "py_get v k dflt = Inl (AttributeError ''get'')"

text \<open>\<^verbatim>\<open>obj[0]\<close> and \<^verbatim>\<open>obj['key']\<close>.\<close>

fun subscript_0 :: "pyval \<Rightarrow> pyerr + pyval" where
  "subscript_0 (PList []) = Inl (IndexError ''list index out of range'')"
| "subscript_0 (PList (x # xs)) = Inr x"
| "subscript_0 (PStr []) = Inl (IndexError ''string index out of range'')"
| "subscript_0 (PStr (c # cs)) = Inr (PStr [c])"
| "subscript_0 (PDict d) = Inl (KeyError ''0'')"
| "subscript_0 v = Inl (TypeError ''not subscriptable'')"

fun subscript_key :: "pyval \<Rightarrow> string \<Rightarrow> pyerr + pyval" where
  "subscript_key (PDict d) k = (case map_of d k of None \<Rightarrow> Inl (KeyError k) | Some v \<Rightarrow> Inr v)"
| "subscript_key v k = Inl (TypeError ''indices must be integers'')"

text \<open>\<^verbatim>\<open>obj[key] = value\<close>.\<close>

fun setitem :: "pyval \<Rightarrow> string \<Rightarrow> pyval \<Rightarrow> pyerr + pyval" where
  "setitem (PDict d) k v = Inr (PDict (AList.update k v d))"
| "setitem obj k v = Inl (TypeError ''does not support item assignment'')"

text \<open>\<^verbatim>\<open>len(obj)\<close> and the items a \<^verbatim>\<open>for\<close> loop visits.\<close>

fun py_len :: "pyval \<Rightarrow> pyerr + nat" where
  "py_len (PList xs) = Inr (length xs)"
| "py_len (PDict d) = Inr (length d)"
| "py_len (PStr s) = Inr (length s)"
| "py_len v = Inl (TypeError ''has no len()'')"

fun py_iter :: "pyval \<Rightarrow> pyerr + pyval list" where
  "py_iter (PList xs) = Inr xs"
| "py_iter (PDict d) = Inr (map (\<lambda>kv. PStr (fst kv)) d)"
| "py_iter (PStr s) = Inr (map (\<lambda>c. PStr [c]) s)"
| "py_iter v = Inl (TypeError ''is not iterable'')"

text \<open>The decimal text of a length, as an f-string prints it.\<close>

fun show_nat :: "nat \<Rightarrow> string" where
  "show_nat n =
     (if n < 10 then [''0123456789'' ! n]
      else show_nat (n div 10) @ [''0123456789'' ! (n mod 10)])"

declare show_nat.simps [simp del]

text \<open>\<^verbatim>\<open>{v}\<close> inside an f-string.\<close>

definition fstr :: "ext \<Rightarrow> pyval \<Rightarrow> string" where
  "fstr x v = (case v of PStr s \<Rightarrow> s | _ \<Rightarrow> format_other x v)"

text \<open>\<^verbatim>\<open>os.path.join\<close> of two parts, as on POSIX.\<close>

definition path_join :: "string \<Rightarrow> string \<Rightarrow> string" where
  "path_join a b =
     (if b \<noteq> [] \<and> hd b = CHR ''/'' then b
      else if a = [] \<or> last a = CHR ''/'' then a @ b
      else a @ ''/'' @ b)"

definition data_file :: "ext \<Rightarrow> string \<Rightarrow> string" where
  "data_file x name = path_join (path_join (path_join (script_dir x) ''..'') ''data'') name"

section \<open>analyzeSentiment.py\<close>

text \<open>
  Lines 30 to 40, the body of the loop for an article whose title is usable:
  \<^verbatim>\<open>
        result = sentiment_pipeline(title)
        sentiment = result[0]['label']
        sentiment_score = result[0]['score']
        article['sentiment'] = sentiment
        article['sentiment_score'] = sentiment_score
  \<close>
\<close>

definition annotate :: "(pyval \<Rightarrow> pyerr + pyval) \<Rightarrow> pyval \<Rightarrow> pyval \<Rightarrow> pyerr + pyval" where
  "annotate sentiment_pipeline article title =
     (case sentiment_pipeline title of Inl e \<Rightarrow> Inl e | Inr result \<Rightarrow>
      (case subscript_0 result of Inl e \<Rightarrow> Inl e | Inr r0 \<Rightarrow>
       (case subscript_key r0 ''label'' of Inl e \<Rightarrow> Inl e | Inr sentiment \<Rightarrow>
        (case subscript_key r0 ''score'' of Inl e \<Rightarrow> Inl e | Inr sentiment_score \<Rightarrow>
         (case setitem article ''sentiment'' sentiment of Inl e \<Rightarrow> Inl e | Inr article1 \<Rightarrow>
          setitem article1 ''sentiment_score'' sentiment_score)))))"

text \<open>
  Lines 24 to 41, the loop; \<open>analyzed_articles\<close> is the list built so far:
  \<^verbatim>\<open>
    for article in articles:
        title = article.get('title')
        if not title:
            continue
        ...
        analyzed_articles.append(article)
  \<close>
\<close>

fun analyze_loop ::
  "(pyval \<Rightarrow> pyerr + pyval) \<Rightarrow> pyval list \<Rightarrow> pyval list \<Rightarrow> pyerr + pyval list" where
  "analyze_loop sentiment_pipeline [] analyzed_articles = Inr analyzed_articles"
| "analyze_loop sentiment_pipeline (article # rest) analyzed_articles =
     (case py_get article ''title'' PNone of Inl e \<Rightarrow> Inl e | Inr title \<Rightarrow>
        if \<not> truthy title then analyze_loop sentiment_pipeline rest analyzed_articles
        else (case annotate sentiment_pipeline article title of Inl e \<Rightarrow> Inl e
              | Inr article' \<Rightarrow>
                  analyze_loop sentiment_pipeline rest (analyzed_articles @ [article'])))"

text \<open>
  Lines 13 to 15, the \<^verbatim>\<open>try\<close> block: \<^verbatim>\<open>open\<close> raises when the path names no
  readable file (which exception depends on what is at the path), otherwise
  \<^verbatim>\<open>json.load\<close> parses the contents.
\<close>

definition open_and_load :: "ext \<Rightarrow> string \<Rightarrow> world \<Rightarrow> pyerr + pyval" where
  "open_and_load x file_path w =
     (case files w file_path of
        None \<Rightarrow> Inl (open_error x file_path)
      | Some contents \<Rightarrow> json_load x contents)"

text \<open>Lines 20 to 44, after the file has been read.\<close>

definition analyze_articles ::
  "(pyval \<Rightarrow> pyerr + pyval) \<Rightarrow> pyval \<Rightarrow> world \<Rightarrow> world \<times> (pyerr + pyval)" where
  "analyze_articles sentiment_pipeline articles w =
     (case py_len articles of Inl e \<Rightarrow> (w, Inl e) | Inr n \<Rightarrow>
        let w1 = py_print (''Analyzing sentiment for '' @ show_nat n @ '' articles...'') w in
        (case py_iter articles of Inl e \<Rightarrow> (w1, Inl e) | Inr items \<Rightarrow>
          (case analyze_loop sentiment_pipeline items [] of Inl e \<Rightarrow> (w1, Inl e)
           | Inr analyzed_articles \<Rightarrow>
               (py_print ''Analysis complete.'' w1, Inr (PList analyzed_articles)))))"

text \<open>
  \<^verbatim>\<open>def analyzeSentiment(file_path)\<close>, lines 6 to 44. An exception other than
  FileNotFoundError (a parse error, IsADirectoryError, ...) leaves the \<^verbatim>\<open>try\<close>
  block uncaught.
\<close>

definition analyzeSentiment :: "ext \<Rightarrow> string \<Rightarrow> world \<Rightarrow> world \<times> (pyerr + pyval)" where
  "analyzeSentiment x file_path w =
     (let w1 = py_print ''Loading the sentiment analysis model'' w in
      case pipeline x ''sentiment-analysis'' of Inl e \<Rightarrow> (w1, Inl e)
      | Inr sentiment_pipeline \<Rightarrow>
          let w2 = py_print ''Model loaded successfully'' w1 in
          (case open_and_load x file_path w2 of
             Inl (FileNotFoundError p) \<Rightarrow>
               (py_print (''Error: The file '' @ file_path @ '' was not found.'') w2, Inr PNone)
           | Inl e \<Rightarrow> (w2, Inl e)
           | Inr articles \<Rightarrow> analyze_articles sentiment_pipeline articles w2))"

text \<open>
  Lines 64 to 68, the sample printed by the entry point:
  \<^verbatim>\<open>
        for article in analyzed_data[:5]:
            print(f"Headline: {article['title']}")
            print(f"Sentiment: {article['sentiment']} (Score: {article['sentiment_score']:.2f})\n")
  \<close>
\<close>

fun slice_5 :: "pyval \<Rightarrow> pyerr + pyval list" where
  "slice_5 (PList xs) = Inr (take 5 xs)"
| "slice_5 (PStr s) = Inr (map (\<lambda>c. PStr [c]) (take 5 s))"
| "slice_5 v = Inl (TypeError ''cannot be sliced'')"

fun print_samples :: "ext \<Rightarrow> pyval list \<Rightarrow> world \<Rightarrow> world \<times> (pyerr + unit)" where
  "print_samples x [] w = (w, Inr ())"
| "print_samples x (article # rest) w =
     (case subscript_key article ''title'' of Inl e \<Rightarrow> (w, Inl e) | Inr title \<Rightarrow>
        let w1 = py_print (''Headline: '' @ fstr x title) w in
        (case subscript_key article ''sentiment'' of Inl e \<Rightarrow> (w1, Inl e) | Inr sentiment \<Rightarrow>
         (case subscript_key article ''sentiment_score'' of Inl e \<Rightarrow> (w1, Inl e) | Inr score \<Rightarrow>
          (case format_2f x score of Inl e \<Rightarrow> (w1, Inl e) | Inr score_text \<Rightarrow>
             print_samples x rest
               (py_print (''Sentiment: '' @ fstr x sentiment @ '' (Score: '' @ score_text @ '')''
                            @ [CHR 0x0A]) w1)))))"

text \<open>
  Lines 54 to 68, what the entry point does with the value the analysis returned.
  The output file is opened (and so emptied) before \<^verbatim>\<open>json.dump\<close> runs; its
  directory is the one the input was read from.
\<close>

definition analyzer_main_body :: "ext \<Rightarrow> pyval \<Rightarrow> world \<Rightarrow> world \<times> (pyerr + unit)" where
  "analyzer_main_body x analyzed_data w =
     (if truthy analyzed_data then
        let output_file = data_file x ''analyzed_headlines.json'' in
        (case json_dump x analyzed_data of
           Inl e \<Rightarrow> (w\<lparr>files := (files w)(output_file \<mapsto> [])\<rparr>, Inl e)
         | Inr text \<Rightarrow>
             let w1 = w\<lparr>files := (files w)(output_file \<mapsto> text)\<rparr>;
                 w2 = py_print (''Successfully saved analyzed data to '' @ output_file) w1;
                 w3 = py_print (CHR 0x0A # ''--- Sample of Analyzed Headlines ---'') w2
             in (case slice_5 analyzed_data of Inl e \<Rightarrow> (w3, Inl e)
                 | Inr sample \<Rightarrow> print_samples x sample w3))
      else (w, Inr ()))"

text \<open>
  The names bound at module level when the entry point runs: the imports
  \<^verbatim>\<open>os\<close>, \<^verbatim>\<open>json\<close>, \<^verbatim>\<open>pipeline\<close> and the one \<^verbatim>\<open>def\<close>. A name bound to nothing
  (and no builtin) raises NameError when it is evaluated.
\<close>

datatype binding =
    Imported
  | Defined "string \<Rightarrow> world \<Rightarrow> world \<times> (pyerr + pyval)"

definition module_globals :: "ext \<Rightarrow> string \<rightharpoonup> binding" where
  "module_globals x =
     map_of [(''os'', Imported), (''json'', Imported), (''pipeline'', Imported),
             (''analyzeSentiment'', Defined (analyzeSentiment x))]"

definition call_global :: "ext \<Rightarrow> string \<Rightarrow> string \<Rightarrow> world \<Rightarrow> world \<times> (pyerr + pyval)" where
  "call_global x name arg w =
     (case module_globals x name of
        None \<Rightarrow> (w, Inl (NameError name))
      | Some Imported \<Rightarrow> (w, Inl (ExternalError ''call of an imported object'' name))
      | Some (Defined f) \<Rightarrow> f arg w)"

text \<open>
  Lines 46 to 68, the entry point:
  \<^verbatim>\<open>
    input_file = os.path.join(os.path.dirname(__file__), '..', 'data', 'global_headlines.json')
    analyzed_data = analyze_headlines(input_file)
    if analyzed_data:
        ...
  \<close>
\<close>

definition analyzer_main :: "ext \<Rightarrow> world \<Rightarrow> world \<times> (pyerr + unit)" where
  "analyzer_main x w =
     (let input_file = data_file x ''global_headlines.json'' in
      case call_global x ''analyze_headlines'' input_file w of
        (w1, Inl e) \<Rightarrow> (w1, Inl e)
      | (w1, Inr analyzed_data) \<Rightarrow> analyzer_main_body x analyzed_data w1)"

section \<open>fetchNews.py\<close>

definition BASE_URL :: string where
  "BASE_URL = ''https://newsapi.org/v2/top-headlines''"

text \<open>\<^verbatim>\<open>not API_KEY\<close> for the value of \<^verbatim>\<open>os.getenv\<close>: unset (\<open>None\<close>) or empty.\<close>

definition key_missing :: "string option \<Rightarrow> bool" where
  "key_missing k = (case k of None \<Rightarrow> True | Some s \<Rightarrow> s = [])"

text \<open>Lines 18 to 23, the query parameters.\<close>

definition request_params :: "ext \<Rightarrow> string \<Rightarrow> string \<Rightarrow> (string \<times> pyval) list" where
  "request_params x category language =
     [(''category'', PStr category),
      (''language'', PStr language),
      (''apiKey'', (case API_KEY x of None \<Rightarrow> PNone | Some k \<Rightarrow> PStr k)),
      (''pageSize'', PInt 100)]"

text \<open>
  Lines 27 to 30, the \<^verbatim>\<open>try\<close> block:
  \<^verbatim>\<open>
        response = requests.get(BASE_URL, params=params)
        response.raise_for_status()
        data = response.json()
        return data.get('articles', [])
  \<close>
\<close>

definition fetch_try :: "ext \<Rightarrow> (string \<times> pyval) list \<Rightarrow> pyerr + pyval" where
  "fetch_try x params =
     (case requests_get x BASE_URL params of Inl e \<Rightarrow> Inl e | Inr response \<Rightarrow>
      (case raise_for_status response of Some e \<Rightarrow> Inl e | None \<Rightarrow>
       (case json_body response of Inl e \<Rightarrow> Inl e | Inr data \<Rightarrow>
          py_get data ''articles'' (PList []))))"

text \<open>
  \<^verbatim>\<open>def get_headlines_by_category(category='general', language='en')\<close>, lines 11 to
  34. The request is logged when \<^verbatim>\<open>requests.get\<close> is called, whatever comes back.
  Only exceptions of class RequestException are caught.
\<close>

definition get_headlines_by_category ::
  "ext \<Rightarrow> string \<Rightarrow> string \<Rightarrow> world \<Rightarrow> world \<times> (pyerr + pyval)" where
  "get_headlines_by_category x category language w =
     (if key_missing (API_KEY x) then
        (py_print ''Error: NEWS_API_KEY not found. Please set it in your .env file.'' w,
         Inr PNone)
      else
        let params = request_params x category language;
            w1 = py_print (''Fetching '' @ [CHR 0x27] @ category @ [CHR 0x27] @ '' headlines...'') w;
            w2 = w1\<lparr>net_log := net_log w1 @ [(BASE_URL, params)]\<rparr>
        in (case fetch_try x params of
              Inl (RequestException c m) \<Rightarrow> (py_print (''An error occurred: '' @ m) w2, Inr PNone)
            | Inl e \<Rightarrow> (w2, Inl e)
            | Inr articles \<Rightarrow> (w2, Inr articles)))"

text \<open>\<^verbatim>\<open>os.makedirs(data_dir, exist_ok=True)\<close>.\<close>

definition makedirs :: "string \<Rightarrow> world \<Rightarrow> world" where
  "makedirs d w = w\<lparr>dirs := List.insert d (dirs w)\<rparr>"

text \<open>
  Lines 39 to 50, what the entry point does with the value the fetch returned:
  \<^verbatim>\<open>
    if articles:
        data_dir = os.path.join(os.path.dirname(__file__), '..', 'data')
        os.makedirs(data_dir, exist_ok=True)
        file_path = os.path.join(data_dir, 'global_headlines.json')
        with open(file_path, 'w', encoding='utf-8') as f:
            json.dump(articles, f, indent=4, ensure_ascii=False)
        print(f"Successfully saved {len(articles)} articles to {file_path}")
    else:
        print("Could not fetch or save articles.")
  \<close>
\<close>

definition fetch_main_body :: "ext \<Rightarrow> pyval \<Rightarrow> world \<Rightarrow> world \<times> (pyerr + unit)" where
  "fetch_main_body x articles w =
     (if truthy articles then
        let data_dir = path_join (path_join (script_dir x) ''..'') ''data'';
            w1 = makedirs data_dir w;
            file_path = path_join data_dir ''global_headlines.json''
        in (case json_dump x articles of
              Inl e \<Rightarrow> (w1\<lparr>files := (files w1)(file_path \<mapsto> [])\<rparr>, Inl e)
            | Inr text \<Rightarrow>
                let w2 = w1\<lparr>files := (files w1)(file_path \<mapsto> text)\<rparr> in
                (case py_len articles of Inl e \<Rightarrow> (w2, Inl e) | Inr n \<Rightarrow>
                   (py_print (''Successfully saved '' @ show_nat n @ '' articles to '' @ file_path) w2,
                    Inr ())))
      else (py_print ''Could not fetch or save articles.'' w, Inr ()))"

text \<open>Lines 36 to 52, the entry point.\<close>

definition fetch_main :: "ext \<Rightarrow> world \<Rightarrow> world \<times> (pyerr + unit)" where
  "fetch_main x w =
     (case get_headlines_by_category x ''general'' ''en'' w of
        (w1, Inl e) \<Rightarrow> (w1, Inl e)
      | (w1, Inr articles) \<Rightarrow>
          (case fetch_main_body x articles w1 of
             (w2, Inl e) \<Rightarrow> (w2, Inl e)
           | (w2, Inr u) \<Rightarrow> (py_print (CHR 0x0A # ''Fetching complete!'') w2, Inr ())))"

section \<open>Vocabulary of the properties\<close>

text \<open>
  The test of lines 26 and 27 of \<^verbatim>\<open>analyzeSentiment.py\<close>: a record has a usable title
  when \<^verbatim>\<open>article.get('title')\<close> is truthy. A record without the key, or with a title
  that is \<^verbatim>\<open>null\<close>, empty, zero or false, has none.
\<close>

definition usable_title :: "pyval \<Rightarrow> bool" where
  "usable_title article =
     (case py_get article ''title'' PNone of Inl e \<Rightarrow> False | Inr title \<Rightarrow> truthy title)"

text \<open>A dict with the two fields of lines 39 and 40 written, in that order.\<close>

definition add_sentiment :: "(string \<times> pyval) list \<Rightarrow> pyval \<Rightarrow> pyval \<Rightarrow> pyval" where
  "add_sentiment d l s = PDict (AList.update ''sentiment_score'' s (AList.update ''sentiment'' l d))"

section \<open>Sample inputs\<close>

text \<open>
  The three records of the specification's scenario, a classifier that answers
  POSITIVE with score 0.99, and a world whose only file is the fetched headlines,
  in the directory \<^verbatim>\<open>scripts/../data\<close>.
\<close>

definition demo_articles :: "pyval list" where
  "demo_articles =
     [PDict [(''title'', PStr ''Markets rally on strong earnings'')],
      PDict [(''title'', PStr [])],
      PDict [(''source'', PStr ''x'')]]"

definition demo_classifier :: "pyval \<Rightarrow> pyerr + pyval" where
  "demo_classifier title =
     Inr (PList [PDict [(''label'', PStr ''POSITIVE''), (''score'', PFloat (99 / 100))]])"

definition demo_ext :: ext where
  "demo_ext =
     \<lparr>API_KEY = Some ''secret'',
      requests_get = (\<lambda>url params. Inr \<lparr>raise_for_status = None,
         json_body = Inr (PDict [(''status'', PStr ''ok''), (''articles'', PList demo_articles)])\<rparr>),
      pipeline = (\<lambda>task. Inr demo_classifier),
      json_load = (\<lambda>contents. if contents = ''headlines'' then Inr (PList demo_articles)
                              else Inl (ExternalError ''JSONDecodeError'' contents)),
      json_dump = (\<lambda>v. Inr ''dumped''),
      format_2f = (\<lambda>v. Inr ''0.99''),
      format_other = (\<lambda>v. ''value''),
      script_dir = ''scripts'',
      open_error = (\<lambda>path. if path = ''scripts/../data''
                            then ExternalError ''IsADirectoryError'' path
                            else FileNotFoundError path)\<rparr>"

definition demo_world :: world where
  "demo_world =
     \<lparr>files = [''scripts/../data/global_headlines.json'' \<mapsto> ''headlines''],
      dirs = [], stdout = [], net_log = []\<rparr>"

text \<open>
  Four variations of the news API: a refused connection, a 401 answer on which
  \<^verbatim>\<open>raise_for_status\<close> raises, a body without an \<^verbatim>\<open>articles\<close> key, and an empty
  \<^verbatim>\<open>articles\<close> array.
\<close>

definition refused_ext :: ext where
  "refused_ext =
     demo_ext\<lparr>requests_get :=
       (\<lambda>url params. Inl (RequestException ''ConnectionError'' ''connection refused''))\<rparr>"

definition unauthorized_ext :: ext where
  "unauthorized_ext =
     demo_ext\<lparr>requests_get :=
       (\<lambda>url params. Inr \<lparr>raise_for_status =
                              Some (RequestException ''HTTPError'' ''401 Client Error''),
                            json_body = Inr (PDict [(''status'', PStr ''error'')])\<rparr>)\<rparr>"

definition no_articles_ext :: ext where
  "no_articles_ext =
     demo_ext\<lparr>requests_get :=
       (\<lambda>url params. Inr \<lparr>raise_for_status = None,
                            json_body = Inr (PDict [(''status'', PStr ''ok'')])\<rparr>)\<rparr>"

definition empty_ext :: ext where
  "empty_ext =
     demo_ext\<lparr>requests_get :=
       (\<lambda>url params. Inr \<lparr>raise_for_status = None,
                            json_body = Inr (PDict [(''status'', PStr ''ok''),
                                                    (''articles'', PList [])])\<rparr>)\<rparr>"



section \<open>Facts about the analysis loop\<close>

lemma annotate_Inr:
  assumes "annotate sp a t = Inr r"
  shows "\<exists>d r0 rest l s. a = PDict d \<and> sp t = Inr (PList (PDict r0 # rest))
           \<and> map_of r0 ''label'' = Some l \<and> map_of r0 ''score'' = Some s
           \<and> r = add_sentiment d l s"
proof -
  from assms obtain result where res: "sp t = Inr result"
    by (auto simp: annotate_def split: sum.splits)
  from assms res obtain r0 where r0: "subscript_0 result = Inr r0"
    by (auto simp: annotate_def split: sum.splits)
  from assms res r0 obtain l where l: "subscript_key r0 ''label'' = Inr l"
    by (auto simp: annotate_def split: sum.splits)
  from assms res r0 l obtain s where s: "subscript_key r0 ''score'' = Inr s"
    by (auto simp: annotate_def split: sum.splits)
  from assms res r0 l s obtain a1 where a1: "setitem a ''sentiment'' l = Inr a1"
    and r: "setitem a1 ''sentiment_score'' s = Inr r"
    by (auto simp: annotate_def split: sum.splits)
  from a1 obtain d where d: "a = PDict d" "a1 = PDict (AList.update ''sentiment'' l d)"
    by (cases a) auto
  from l obtain kv where kv: "r0 = PDict kv" "map_of kv ''label'' = Some l"
    by (cases r0) (auto split: option.splits)
  from s kv have sc: "map_of kv ''score'' = Some s"
    by (auto split: option.splits)
  from r0 kv obtain rest where "result = PList (PDict kv # rest)"
    by (cases result rule: subscript_0.cases) auto
  with res d r kv sc show ?thesis
    by (auto simp: add_sentiment_def)
qed

lemma analyze_loop_Inr:
  "analyze_loop sp arts acc = Inr out \<Longrightarrow>
   \<exists>new. out = acc @ new \<and>
     list_all2 (\<lambda>a r. \<exists>t. py_get a ''title'' PNone = Inr t \<and> truthy t \<and> annotate sp a t = Inr r)
       (filter usable_title arts) new"
proof (induction arts arbitrary: acc)
  case Nil
  then show ?case by simp
next
  case (Cons a arts)
  from Cons.prems obtain t where t: "py_get a ''title'' PNone = Inr t"
    by (auto split: sum.splits)
  show ?case
  proof (cases "truthy t")
    case False
    with t Cons.prems have "analyze_loop sp arts acc = Inr out" by simp
    moreover from t False have "\<not> usable_title a" by (simp add: usable_title_def)
    ultimately show ?thesis using Cons.IH[of acc] by simp
  next
    case True
    with t Cons.prems obtain r where r: "annotate sp a t = Inr r"
      and rest: "analyze_loop sp arts (acc @ [r]) = Inr out"
      by (auto split: sum.splits)
    from Cons.IH[OF rest] obtain new where "out = (acc @ [r]) @ new"
      "list_all2 (\<lambda>a r. \<exists>t. py_get a ''title'' PNone = Inr t \<and> truthy t \<and> annotate sp a t = Inr r)
       (filter usable_title arts) new" by blast
    moreover from t True have "usable_title a" by (simp add: usable_title_def)
    ultimately show ?thesis using t True r by auto
  qed
qed

lemma analyzeSentiment_Inr:
  assumes "files w file_path = Some contents"
    and "json_load x contents = Inr (PList articles)"
    and "analyzeSentiment x file_path w = (w', Inr out)"
  shows "\<exists>sp records. pipeline x ''sentiment-analysis'' = Inr sp \<and> out = PList records
           \<and> analyze_loop sp articles [] = Inr records"
  using assms
  by (auto simp: analyzeSentiment_def open_and_load_def analyze_articles_def py_print_def Let_def
           split: sum.splits)

lemma demo_run:
  "analyzeSentiment demo_ext ''scripts/../data/global_headlines.json'' demo_world =
     (demo_world\<lparr>stdout := [''Loading the sentiment analysis model'', ''Model loaded successfully'',
          ''Analyzing sentiment for 3 articles...'', ''Analysis complete.'']\<rparr>,
      Inr (PList [PDict [(''title'', PStr ''Markets rally on strong earnings''),
                         (''sentiment'', PStr ''POSITIVE''),
                         (''sentiment_score'', PFloat (99 / 100))]]))"
  by (simp add: analyzeSentiment_def open_and_load_def analyze_articles_def py_print_def
        annotate_def demo_ext_def demo_world_def demo_articles_def demo_classifier_def
        show_nat.simps[of "Suc (Suc (Suc 0))"])

text \<open>
  The loop returns whenever every item is a dict and the classifier answers every
  title with a list whose first element has a \<^verbatim>\<open>label\<close> and a \<^verbatim>\<open>score\<close>; so does
  the function, when the model loads and the file holds a JSON array.
\<close>

lemma annotate_returns:
  assumes "sp t = Inr (PList (PDict r0 # rest))"
    and "map_of r0 ''label'' = Some l" and "map_of r0 ''score'' = Some s"
  shows "annotate sp (PDict d) t = Inr (add_sentiment d l s)"
  using assms by (simp add: annotate_def add_sentiment_def)

lemma analyze_loop_returns:
  assumes dicts: "\<forall>a \<in> set arts. \<exists>d. a = PDict d"
    and answers: "\<forall>t. \<exists>r0 rest l s. sp t = Inr (PList (PDict r0 # rest))
                    \<and> map_of r0 ''label'' = Some l \<and> map_of r0 ''score'' = Some s"
  shows "\<exists>out. analyze_loop sp arts acc = Inr out"
  using dicts
proof (induction arts arbitrary: acc)
  case Nil
  then show ?case by simp
next
  case (Cons a arts)
  then obtain d where a: "a = PDict d" by auto
  define t where "t = (case map_of d ''title'' of None \<Rightarrow> PNone | Some v \<Rightarrow> v)"
  from answers obtain r0 rest l s where "sp t = Inr (PList (PDict r0 # rest))"
    "map_of r0 ''label'' = Some l" "map_of r0 ''score'' = Some s" by blast
  then have ann: "annotate sp (PDict d) t = Inr (add_sentiment d l s)"
    by (rule annotate_returns)
  from Cons have ih: "\<exists>out. analyze_loop sp arts acc' = Inr out" for acc' by simp
  show ?case
  proof (cases "truthy t")
    case True
    with a ann ih[of "acc @ [add_sentiment d l s]"] show ?thesis
      by (simp add: t_def)
  next
    case False
    with a ih[of acc] show ?thesis by (simp add: t_def)
  qed
qed

lemma analyzeSentiment_returns:
  assumes "pipeline x ''sentiment-analysis'' = Inr sp"
    and "files w file_path = Some contents"
    and "json_load x contents = Inr (PList articles)"
    and "\<forall>a \<in> set articles. \<exists>d. a = PDict d"
    and "\<forall>t. \<exists>r0 rest l s. sp t = Inr (PList (PDict r0 # rest))
                    \<and> map_of r0 ''label'' = Some l \<and> map_of r0 ''score'' = Some s"
  shows "\<exists>w' records. analyzeSentiment x file_path w = (w', Inr (PList records))"
proof -
  from analyze_loop_returns[OF assms(4,5), of "[]"] obtain out where
    "analyze_loop sp articles [] = Inr out" by blast
  with assms(1-3) show ?thesis
    by (simp add: analyzeSentiment_def open_and_load_def analyze_articles_def py_print_def Let_def)
qed

text \<open>
  An exception of \<^verbatim>\<open>open\<close> that is not FileNotFoundError is not caught: for the
  path of a directory the function raises instead of returning \<^verbatim>\<open>None\<close>.
\<close>

lemma analyzeSentiment_open_raises:
  assumes "pipeline x ''sentiment-analysis'' = Inr sp"
    and "files w file_path = None"
    and "open_error x file_path = ExternalError c m"
  shows "analyzeSentiment x file_path w =
           (w\<lparr>stdout := stdout w @
                 [''Loading the sentiment analysis model'', ''Model loaded successfully'']\<rparr>,
            Inl (ExternalError c m))"
  using assms
  by (simp add: analyzeSentiment_def open_and_load_def py_print_def)

lemma analyzeSentiment_directory_path:
  "snd (analyzeSentiment demo_ext ''scripts/../data'' demo_world) =
     Inl (ExternalError ''IsADirectoryError'' ''scripts/../data'')"
  by (simp add: analyzeSentiment_def open_and_load_def py_print_def demo_ext_def demo_world_def)

text \<open>The fetch never touches a file.\<close>

lemma get_headlines_files:
  "files (fst (get_headlines_by_category x category language w)) = files w"
  by (simp add: get_headlines_by_category_def py_print_def Let_def
           split: sum.splits pyerr.splits)

section \<open>Properties of analyzeSentiment.py\<close>

text \<open>
  C1. When \<^verbatim>\<open>analyzeSentiment\<close> reads a JSON array and returns, it returns a list that
  holds, in input order, exactly the input records with a usable title, each with its
  two sentiment fields written; a record without a title, or with an empty or falsy
  one, is left out, and the length of the output is the number of input records with
  a usable title.
\<close>

theorem analyzeSentiment_keeps_titled_records:
  assumes "files w file_path = Some contents"
    and "json_load x contents = Inr (PList articles)"
    and "analyzeSentiment x file_path w = (w', Inr out)"
  shows "\<exists>records. out = PList records
           \<and> length records = length (filter usable_title articles)
           \<and> list_all2 (\<lambda>article record. \<exists>d l s. article = PDict d \<and> record = add_sentiment d l s)
                (filter usable_title articles) records"
proof -
  from analyzeSentiment_Inr[OF assms] obtain sp records where
    out: "out = PList records" and loop: "analyze_loop sp articles [] = Inr records"
    by blast
  from analyze_loop_Inr[OF loop] have
    all: "list_all2 (\<lambda>a r. \<exists>t. py_get a ''title'' PNone = Inr t \<and> truthy t \<and> annotate sp a t = Inr r)
       (filter usable_title articles) records" by simp
  then have "list_all2 (\<lambda>article record. \<exists>d l s. article = PDict d \<and> record = add_sentiment d l s)
                (filter usable_title articles) records"
    by (rule list_all2_mono) (blast dest: annotate_Inr)
  moreover from all have "length records = length (filter usable_title articles)"
    by (simp add: list_all2_lengthD)
  ultimately show ?thesis using out by blast
qed

theorem analyzeSentiment_keeps_titled_records_witness:
  "files demo_world ''scripts/../data/global_headlines.json'' = Some ''headlines''
   \<and> json_load demo_ext ''headlines'' = Inr (PList demo_articles)
   \<and> snd (analyzeSentiment demo_ext ''scripts/../data/global_headlines.json'' demo_world) =
       Inr (PList [PDict [(''title'', PStr ''Markets rally on strong earnings''),
                         (''sentiment'', PStr ''POSITIVE''),
                         (''sentiment_score'', PFloat (99 / 100))]])
   \<and> length (filter usable_title demo_articles) = 1
   \<and> (\<exists>records. PList [PDict [(''title'', PStr ''Markets rally on strong earnings''),
                         (''sentiment'', PStr ''POSITIVE''),
                         (''sentiment_score'', PFloat (99 / 100))]] = PList records
           \<and> length records = length (filter usable_title demo_articles)
           \<and> list_all2 (\<lambda>article record. \<exists>d l s. article = PDict d \<and> record = add_sentiment d l s)
                (filter usable_title demo_articles) records)"
proof -
  have f: "files demo_world ''scripts/../data/global_headlines.json'' = Some ''headlines''"
    by (simp add: demo_world_def)
  have l: "json_load demo_ext ''headlines'' = Inr (PList demo_articles)"
    by (simp add: demo_ext_def)
  have n: "length (filter usable_title demo_articles) = 1"
    by (simp add: demo_articles_def usable_title_def)
  from analyzeSentiment_keeps_titled_records[OF f l demo_run] f l n demo_run
  show ?thesis by simp
qed

text \<open>
  C2. Let the classifier keep the contract of the inference service: whenever it
  answers, the first element of its answer has a non-empty string \<^verbatim>\<open>label\<close> and a
  float \<^verbatim>\<open>score\<close> in [0, 1]. Then every record of the output has exactly the keys
  of its input record plus \<^verbatim>\<open>sentiment\<close> and \<^verbatim>\<open>sentiment_score\<close>, the first a
  non-empty string and the second a float in [0, 1], and every other field has the
  value it had in the input.
\<close>

theorem analyzeSentiment_adds_only_sentiment_fields:
  assumes load: "pipeline x ''sentiment-analysis'' = Inr sp"
    and contract: "\<forall>title result. sp title = Inr result \<longrightarrow>
          (\<exists>r0 rest l s. result = PList (PDict r0 # rest)
             \<and> map_of r0 ''label'' = Some (PStr l) \<and> l \<noteq> []
             \<and> map_of r0 ''score'' = Some (PFloat s) \<and> 0 \<le> s \<and> s \<le> 1)"
    and fileh: "files w file_path = Some contents"
    and parse: "json_load x contents = Inr (PList articles)"
    and ret: "analyzeSentiment x file_path w = (w', Inr out)"
  shows "\<exists>records. out = PList records
           \<and> list_all2 (\<lambda>article record. \<exists>d d'. article = PDict d \<and> record = PDict d'
                  \<and> fst ` set d' = fst ` set d \<union> {''sentiment'', ''sentiment_score''}
                  \<and> (\<forall>k. k \<noteq> ''sentiment'' \<and> k \<noteq> ''sentiment_score'' \<longrightarrow> map_of d' k = map_of d k)
                  \<and> (\<exists>l. map_of d' ''sentiment'' = Some (PStr l) \<and> l \<noteq> [])
                  \<and> (\<exists>s. map_of d' ''sentiment_score'' = Some (PFloat s) \<and> 0 \<le> s \<and> s \<le> 1))
                (filter usable_title articles) records"
proof -
  from analyzeSentiment_Inr[OF fileh parse ret] load obtain records where
    out: "out = PList records" and loop: "analyze_loop sp articles [] = Inr records"
    by auto
  from analyze_loop_Inr[OF loop] have
    all: "list_all2 (\<lambda>a r. \<exists>t. py_get a ''title'' PNone = Inr t \<and> truthy t \<and> annotate sp a t = Inr r)
       (filter usable_title articles) records" by simp
  have step: "\<exists>d d'. a = PDict d \<and> r = PDict d'
                  \<and> fst ` set d' = fst ` set d \<union> {''sentiment'', ''sentiment_score''}
                  \<and> (\<forall>k. k \<noteq> ''sentiment'' \<and> k \<noteq> ''sentiment_score'' \<longrightarrow> map_of d' k = map_of d k)
                  \<and> (\<exists>l. map_of d' ''sentiment'' = Some (PStr l) \<and> l \<noteq> [])
                  \<and> (\<exists>s. map_of d' ''sentiment_score'' = Some (PFloat s) \<and> 0 \<le> s \<and> s \<le> 1)"
    if "annotate sp a t = Inr r" for a t r
  proof -
    from annotate_Inr[OF that] obtain d r0 rest l s where
      a: "a = PDict d" and res: "sp t = Inr (PList (PDict r0 # rest))"
      and l: "map_of r0 ''label'' = Some l" and s: "map_of r0 ''score'' = Some s"
      and r: "r = add_sentiment d l s" by blast
    from contract res l s obtain l' s' where
      l': "l = PStr l'" "l' \<noteq> []" and s': "s = PFloat s'" "0 \<le> s'" "s' \<le> 1"
      by fastforce
    let ?d' = "AList.update ''sentiment_score'' s (AList.update ''sentiment'' l d)"
    have keys: "fst ` set ?d' = fst ` set d \<union> {''sentiment'', ''sentiment_score''}"
      by (auto simp: dom_update)
    have frame: "\<forall>k. k \<noteq> ''sentiment'' \<and> k \<noteq> ''sentiment_score'' \<longrightarrow> map_of ?d' k = map_of d k"
      by (simp add: update_conv')
    have lab: "map_of ?d' ''sentiment'' = Some (PStr l')"
      using l' by (simp add: update_conv')
    have sc: "map_of ?d' ''sentiment_score'' = Some (PFloat s')"
      using s' by (simp add: update_conv')
    from a r keys frame lab sc l' s' show ?thesis
      unfolding add_sentiment_def by blast
  qed
  from all have "list_all2 (\<lambda>article record. \<exists>d d'. article = PDict d \<and> record = PDict d'
                  \<and> fst ` set d' = fst ` set d \<union> {''sentiment'', ''sentiment_score''}
                  \<and> (\<forall>k. k \<noteq> ''sentiment'' \<and> k \<noteq> ''sentiment_score'' \<longrightarrow> map_of d' k = map_of d k)
                  \<and> (\<exists>l. map_of d' ''sentiment'' = Some (PStr l) \<and> l \<noteq> [])
                  \<and> (\<exists>s. map_of d' ''sentiment_score'' = Some (PFloat s) \<and> 0 \<le> s \<and> s \<le> 1))
                (filter usable_title articles) records"
    by (rule list_all2_mono) (use step in blast)
  with out show ?thesis by blast
qed

theorem analyzeSentiment_adds_only_sentiment_fields_witness:
  "pipeline demo_ext ''sentiment-analysis'' = Inr demo_classifier
   \<and> files demo_world ''scripts/../data/global_headlines.json'' = Some ''headlines''
   \<and> json_load demo_ext ''headlines'' = Inr (PList demo_articles)
   \<and> filter usable_title demo_articles =
         [PDict [(''title'', PStr ''Markets rally on strong earnings'')]]
   \<and> (\<exists>records.
         snd (analyzeSentiment demo_ext ''scripts/../data/global_headlines.json'' demo_world) =
           Inr (PList records)
         \<and> list_all2 (\<lambda>article record. \<exists>d d'. article = PDict d \<and> record = PDict d'
                  \<and> fst ` set d' = fst ` set d \<union> {''sentiment'', ''sentiment_score''}
                  \<and> (\<forall>k. k \<noteq> ''sentiment'' \<and> k \<noteq> ''sentiment_score'' \<longrightarrow> map_of d' k = map_of d k)
                  \<and> (\<exists>l. map_of d' ''sentiment'' = Some (PStr l) \<and> l \<noteq> [])
                  \<and> (\<exists>s. map_of d' ''sentiment_score'' = Some (PFloat s) \<and> 0 \<le> s \<and> s \<le> 1))
                (filter usable_title demo_articles) records)"
proof -
  have p: "pipeline demo_ext ''sentiment-analysis'' = Inr demo_classifier"
    by (simp add: demo_ext_def)
  have c: "\<forall>title result. demo_classifier title = Inr result \<longrightarrow>
          (\<exists>r0 rest l s. result = PList (PDict r0 # rest)
             \<and> map_of r0 ''label'' = Some (PStr l) \<and> l \<noteq> []
             \<and> map_of r0 ''score'' = Some (PFloat s) \<and> 0 \<le> s \<and> s \<le> 1)"
    by (auto simp: demo_classifier_def intro!: exI[of _ "99 / 100"])
  have f: "files demo_world ''scripts/../data/global_headlines.json'' = Some ''headlines''"
    by (simp add: demo_world_def)
  have l: "json_load demo_ext ''headlines'' = Inr (PList demo_articles)"
    by (simp add: demo_ext_def)
  have n: "filter usable_title demo_articles =
         [PDict [(''title'', PStr ''Markets rally on strong earnings'')]]"
    by (simp add: demo_articles_def usable_title_def)
  from analyzeSentiment_adds_only_sentiment_fields[OF p c f l demo_run] p f l n demo_run
  show ?thesis by simp
qed

text \<open>
  C3. The entry point of \<^verbatim>\<open>analyzeSentiment.py\<close> calls \<^verbatim>\<open>analyze_headlines\<close>, a name
  the module never binds (it defines \<^verbatim>\<open>analyzeSentiment\<close>). For every environment
  and every state of the file system the script stops with NameError, before it
  reads, prints or writes anything.
\<close>

theorem analyzer_main_raises_NameError:
  "analyzer_main x w = (w, Inl (NameError ''analyze_headlines''))"
  by (simp add: analyzer_main_def call_global_def module_globals_def)

text \<open>
  C6. When the model loads and the path names a file that does not exist (so
  \<^verbatim>\<open>open\<close> raises FileNotFoundError), \<^verbatim>\<open>analyzeSentiment\<close> prints an error message
  that names the path and returns \<^verbatim>\<open>None\<close>; it leaves every file as it was, and
  the guarded block of the entry point (lines 54 to 68) does nothing with a
  \<^verbatim>\<open>None\<close> result, so no output file is created.
\<close>

theorem analyzeSentiment_missing_file:
  assumes load: "pipeline x ''sentiment-analysis'' = Inr sp"
    and missing: "files w file_path = None"
    and not_found: "open_error x file_path = FileNotFoundError p"
  shows "analyzeSentiment x file_path w =
           (w\<lparr>stdout := stdout w @
                 [''Loading the sentiment analysis model'', ''Model loaded successfully'',
                  ''Error: The file '' @ file_path @ '' was not found.'']\<rparr>,
            Inr PNone)
         \<and> files (fst (analyzeSentiment x file_path w)) = files w
         \<and> analyzer_main_body x PNone (fst (analyzeSentiment x file_path w)) =
             (fst (analyzeSentiment x file_path w), Inr ())"
  using assms
  by (simp add: analyzeSentiment_def open_and_load_def py_print_def analyzer_main_body_def)

theorem analyzeSentiment_missing_file_witness:
  "pipeline demo_ext ''sentiment-analysis'' = Inr demo_classifier
   \<and> files demo_world ''scripts/../data/missing.json'' = None
   \<and> open_error demo_ext ''scripts/../data/missing.json'' =
       FileNotFoundError ''scripts/../data/missing.json''
   \<and> analyzeSentiment demo_ext ''scripts/../data/missing.json'' demo_world =
       (demo_world\<lparr>stdout :=
          [''Loading the sentiment analysis model'', ''Model loaded successfully'',
           ''Error: The file scripts/../data/missing.json was not found.'']\<rparr>,
        Inr PNone)
   \<and> files (fst (analyzeSentiment demo_ext ''scripts/../data/missing.json'' demo_world)) =
       files demo_world"
proof -
  have p: "pipeline demo_ext ''sentiment-analysis'' = Inr demo_classifier"
    by (simp add: demo_ext_def)
  have f: "files demo_world ''scripts/../data/missing.json'' = None"
    by (simp add: demo_world_def)
  have e: "open_error demo_ext ''scripts/../data/missing.json'' =
       FileNotFoundError ''scripts/../data/missing.json''"
    by (simp add: demo_ext_def)
  from analyzeSentiment_missing_file[OF p f e] p f e
  show ?thesis by (simp add: demo_world_def)
qed

section \<open>Properties of fetchNews.py\<close>

text \<open>
  C4. When the API key is unset or empty, \<^verbatim>\<open>get_headlines_by_category\<close> prints the
  configuration error and returns \<^verbatim>\<open>None\<close>; no request is sent (the log of requests
  is unchanged).
\<close>

theorem get_headlines_without_key:
  assumes "API_KEY x = None \<or> API_KEY x = Some []"
  shows "get_headlines_by_category x category language w =
           (w\<lparr>stdout := stdout w @
                 [''Error: NEWS_API_KEY not found. Please set it in your .env file.'']\<rparr>,
            Inr PNone)
         \<and> net_log (fst (get_headlines_by_category x category language w)) = net_log w"
  using assms by (auto simp: get_headlines_by_category_def key_missing_def py_print_def)

theorem get_headlines_without_key_witness:
  "API_KEY (demo_ext\<lparr>API_KEY := Some []\<rparr>) = Some []
   \<and> get_headlines_by_category (demo_ext\<lparr>API_KEY := Some []\<rparr>) ''general'' ''en'' demo_world =
       (demo_world\<lparr>stdout :=
           [''Error: NEWS_API_KEY not found. Please set it in your .env file.'']\<rparr>, Inr PNone)
   \<and> net_log (fst (get_headlines_by_category (demo_ext\<lparr>API_KEY := Some []\<rparr>)
                      ''general'' ''en'' demo_world)) = []
   \<and> API_KEY (demo_ext\<lparr>API_KEY := None\<rparr>) = None
   \<and> get_headlines_by_category (demo_ext\<lparr>API_KEY := None\<rparr>) ''general'' ''en'' demo_world =
       (demo_world\<lparr>stdout :=
           [''Error: NEWS_API_KEY not found. Please set it in your .env file.'']\<rparr>, Inr PNone)"
  using get_headlines_without_key[of "demo_ext\<lparr>API_KEY := Some []\<rparr>" "''general''" "''en''" demo_world]
    get_headlines_without_key[of "demo_ext\<lparr>API_KEY := None\<rparr>" "''general''" "''en''" demo_world]
  by (simp add: demo_world_def)

text \<open>
  C5. With a key present, when \<^verbatim>\<open>requests.get\<close> raises an exception of class
  RequestException (a timeout, a connection error), or \<^verbatim>\<open>raise_for_status\<close> raises
  one (an HTTP error status), the function catches it, prints the message of the
  exception and returns \<^verbatim>\<open>None\<close>; nothing is raised to the caller.
\<close>

theorem get_headlines_catches_request_errors:
  assumes key: "\<not> key_missing (API_KEY x)"
    and fail:
      "requests_get x BASE_URL (request_params x category language) = Inl (RequestException c m)
       \<or> (\<exists>response.
            requests_get x BASE_URL (request_params x category language) = Inr response
            \<and> raise_for_status response = Some (RequestException c m))"
  shows "get_headlines_by_category x category language w =
           (w\<lparr>stdout := stdout w @
                 [''Fetching '' @ [CHR 0x27] @ category @ [CHR 0x27] @ '' headlines...'',
                  ''An error occurred: '' @ m],
               net_log := net_log w @ [(BASE_URL, request_params x category language)]\<rparr>,
            Inr PNone)"
proof -
  from fail have "fetch_try x (request_params x category language) = Inl (RequestException c m)"
    by (auto simp: fetch_try_def)
  with key show ?thesis
    by (simp add: get_headlines_by_category_def py_print_def)
qed

theorem get_headlines_catches_request_errors_witness:
  "\<not> key_missing (API_KEY refused_ext)
   \<and> requests_get refused_ext BASE_URL (request_params refused_ext ''general'' ''en'') =
       Inl (RequestException ''ConnectionError'' ''connection refused'')
   \<and> get_headlines_by_category refused_ext ''general'' ''en'' demo_world =
       (demo_world\<lparr>stdout := [''Fetching '' @ [CHR 0x27] @ ''general'' @ [CHR 0x27] @ '' headlines...'',
                               ''An error occurred: connection refused''],
                    net_log := [(BASE_URL, request_params refused_ext ''general'' ''en'')]\<rparr>,
        Inr PNone)
   \<and> \<not> key_missing (API_KEY unauthorized_ext)
   \<and> (\<exists>response.
         requests_get unauthorized_ext BASE_URL (request_params unauthorized_ext ''general'' ''en'') =
           Inr response
         \<and> raise_for_status response = Some (RequestException ''HTTPError'' ''401 Client Error''))
   \<and> get_headlines_by_category unauthorized_ext ''general'' ''en'' demo_world =
       (demo_world\<lparr>stdout := [''Fetching '' @ [CHR 0x27] @ ''general'' @ [CHR 0x27] @ '' headlines...'',
                               ''An error occurred: 401 Client Error''],
                    net_log := [(BASE_URL, request_params unauthorized_ext ''general'' ''en'')]\<rparr>,
        Inr PNone)"
proof -
  have k1: "\<not> key_missing (API_KEY refused_ext)"
    by (simp add: refused_ext_def demo_ext_def key_missing_def)
  have f1: "requests_get refused_ext BASE_URL (request_params refused_ext ''general'' ''en'') =
       Inl (RequestException ''ConnectionError'' ''connection refused'')"
    by (simp add: refused_ext_def)
  have k2: "\<not> key_missing (API_KEY unauthorized_ext)"
    by (simp add: unauthorized_ext_def demo_ext_def key_missing_def)
  have f2: "\<exists>response.
         requests_get unauthorized_ext BASE_URL (request_params unauthorized_ext ''general'' ''en'') =
           Inr response
         \<and> raise_for_status response = Some (RequestException ''HTTPError'' ''401 Client Error'')"
    by (simp add: unauthorized_ext_def)
  from get_headlines_catches_request_errors[OF k1 disjI1, OF f1, of demo_world]
    get_headlines_catches_request_errors[OF k2 disjI2, OF f2, of demo_world]
    k1 f1 k2 f2
  show ?thesis by (simp add: demo_world_def)
qed

text \<open>
  C7. With a key present, when the request succeeds and the body is an object whose
  \<^verbatim>\<open>articles\<close> is an array, the function returns that array as it is: the code
  cuts nothing off. The request it sends asks for \<^verbatim>\<open>pageSize\<close> 100, so when the API
  returns no more articles than the page size asked for, the length of the result is
  the number of articles returned, capped at 100.
\<close>

theorem get_headlines_returns_api_articles:
  assumes key: "\<not> key_missing (API_KEY x)"
    and get: "requests_get x BASE_URL (request_params x category language) = Inr response"
    and ok: "raise_for_status response = None"
    and body: "json_body response = Inr (PDict data)"
    and arts: "map_of data ''articles'' = Some (PList articles)"
    and page:
      "\<forall>n. map_of (request_params x category language) ''pageSize'' = Some (PInt n)
            \<longrightarrow> int (length articles) \<le> n"
  shows "\<exists>out. snd (get_headlines_by_category x category language w) = Inr (PList out)
           \<and> out = articles
           \<and> length out = min (length articles) 100"
proof -
  from get ok body arts
  have "fetch_try x (request_params x category language) = Inr (PList articles)"
    by (simp add: fetch_try_def)
  with key have "snd (get_headlines_by_category x category language w) = Inr (PList articles)"
    by (simp add: get_headlines_by_category_def Let_def)
  moreover have "map_of (request_params x category language) ''pageSize'' = Some (PInt 100)"
    by (simp add: request_params_def)
  with page have "length articles \<le> 100" by simp
  ultimately show ?thesis by simp
qed

theorem get_headlines_returns_api_articles_witness:
  "\<not> key_missing (API_KEY demo_ext)
   \<and> requests_get demo_ext BASE_URL (request_params demo_ext ''technology'' ''en'') =
       Inr \<lparr>raise_for_status = None,
            json_body = Inr (PDict [(''status'', PStr ''ok''), (''articles'', PList demo_articles)])\<rparr>
   \<and> length demo_articles = 3
   \<and> (\<exists>out. snd (get_headlines_by_category demo_ext ''technology'' ''en'' demo_world) =
               Inr (PList out)
           \<and> out = demo_articles
           \<and> length out = min (length demo_articles) 100)"
proof -
  have k: "\<not> key_missing (API_KEY demo_ext)"
    by (simp add: demo_ext_def key_missing_def)
  have g: "requests_get demo_ext BASE_URL (request_params demo_ext ''technology'' ''en'') =
       Inr \<lparr>raise_for_status = None,
            json_body = Inr (PDict [(''status'', PStr ''ok''), (''articles'', PList demo_articles)])\<rparr>"
    by (simp add: demo_ext_def)
  have a: "map_of [(''status'', PStr ''ok''), (''articles'', PList demo_articles)] ''articles'' =
             Some (PList demo_articles)" by simp
  have n: "length demo_articles = 3" by (simp add: demo_articles_def)
  have p: "\<forall>n. map_of (request_params demo_ext ''technology'' ''en'') ''pageSize'' = Some (PInt n)
            \<longrightarrow> int (length demo_articles) \<le> n"
    by (simp add: request_params_def n)
  from get_headlines_returns_api_articles[OF k g _ _ a p, of demo_world] k g n
  show ?thesis by simp
qed

text \<open>
  C9. When the fetch returns an empty list, the entry point of \<^verbatim>\<open>fetchNews.py\<close>
  writes no file and prints \<^verbatim>\<open>Could not fetch or save articles.\<close>, exactly what
  its guarded block does with a \<^verbatim>\<open>None\<close> result.
\<close>

theorem fetch_main_empty_list_like_failure:
  assumes "get_headlines_by_category x ''general'' ''en'' w = (w1, Inr (PList []))"
  shows "fetch_main x w =
           (w1\<lparr>stdout := stdout w1 @
                 [''Could not fetch or save articles.'', CHR 0x0A # ''Fetching complete!'']\<rparr>,
            Inr ())
         \<and> files (fst (fetch_main x w)) = files w
         \<and> fetch_main_body x (PList []) w1 = fetch_main_body x PNone w1"
proof -
  from assms have "files w1 = files w"
    using get_headlines_files[of x "''general''" "''en''" w] by simp
  with assms show ?thesis
    by (simp add: fetch_main_def fetch_main_body_def py_print_def)
qed

theorem fetch_main_empty_list_like_failure_witness:
  "get_headlines_by_category empty_ext ''general'' ''en'' demo_world =
     (demo_world\<lparr>stdout := [''Fetching '' @ [CHR 0x27] @ ''general'' @ [CHR 0x27] @ '' headlines...''],
                  net_log := [(BASE_URL, request_params empty_ext ''general'' ''en'')]\<rparr>,
      Inr (PList []))
   \<and> fetch_main empty_ext demo_world =
     (demo_world\<lparr>stdout := [''Fetching '' @ [CHR 0x27] @ ''general'' @ [CHR 0x27] @ '' headlines...'',
                             ''Could not fetch or save articles.'',
                             CHR 0x0A # ''Fetching complete!''],
                  net_log := [(BASE_URL, request_params empty_ext ''general'' ''en'')]\<rparr>,
      Inr ())
   \<and> files (fst (fetch_main empty_ext demo_world)) = files demo_world"
proof -
  have g: "get_headlines_by_category empty_ext ''general'' ''en'' demo_world =
     (demo_world\<lparr>stdout := [''Fetching '' @ [CHR 0x27] @ ''general'' @ [CHR 0x27] @ '' headlines...''],
                  net_log := [(BASE_URL, request_params empty_ext ''general'' ''en'')]\<rparr>,
      Inr (PList []))"
    by (simp add: get_headlines_by_category_def fetch_try_def key_missing_def py_print_def
          empty_ext_def demo_ext_def demo_world_def)
  from fetch_main_empty_list_like_failure[OF g] g
  show ?thesis by (simp add: demo_world_def)
qed

text \<open>
  C10. With a key present, when the request succeeds and the JSON body is an object
  without an \<^verbatim>\<open>articles\<close> key, the function returns the empty list: not
  \<^verbatim>\<open>None\<close>, and nothing is raised.
\<close>

theorem get_headlines_without_articles_key:
  assumes key: "\<not> key_missing (API_KEY x)"
    and get: "requests_get x BASE_URL (request_params x category language) = Inr response"
    and ok: "raise_for_status response = None"
    and body: "json_body response = Inr (PDict data)"
    and absent: "map_of data ''articles'' = None"
  shows "get_headlines_by_category x category language w =
           (w\<lparr>stdout := stdout w @
                 [''Fetching '' @ [CHR 0x27] @ category @ [CHR 0x27] @ '' headlines...''],
               net_log := net_log w @ [(BASE_URL, request_params x category language)]\<rparr>,
            Inr (PList []))"
proof -
  from get ok body absent
  have "fetch_try x (request_params x category language) = Inr (PList [])"
    by (simp add: fetch_try_def)
  with key show ?thesis
    by (simp add: get_headlines_by_category_def py_print_def)
qed

theorem get_headlines_without_articles_key_witness:
  "\<not> key_missing (API_KEY no_articles_ext)
   \<and> requests_get no_articles_ext BASE_URL (request_params no_articles_ext ''general'' ''en'') =
       Inr \<lparr>raise_for_status = None, json_body = Inr (PDict [(''status'', PStr ''ok'')])\<rparr>
   \<and> map_of [(''status'', PStr ''ok'')] ''articles'' = None
   \<and> get_headlines_by_category no_articles_ext ''general'' ''en'' demo_world =
       (demo_world\<lparr>stdout := [''Fetching '' @ [CHR 0x27] @ ''general'' @ [CHR 0x27] @ '' headlines...''],
                    net_log := [(BASE_URL, request_params no_articles_ext ''general'' ''en'')]\<rparr>,
        Inr (PList []))"
proof -
  have k: "\<not> key_missing (API_KEY no_articles_ext)"
    by (simp add: no_articles_ext_def demo_ext_def key_missing_def)
  have g: "requests_get no_articles_ext BASE_URL (request_params no_articles_ext ''general'' ''en'') =
       Inr \<lparr>raise_for_status = None, json_body = Inr (PDict [(''status'', PStr ''ok'')])\<rparr>"
    by (simp add: no_articles_ext_def)
  have a: "map_of [(''status'', PStr ''ok'')] ''articles'' = None" by simp
  from get_headlines_without_articles_key[OF k g _ _ a, of demo_world] k g a
  show ?thesis by (simp add: demo_world_def)
qed

section \<open>The file handed from fetchNews.py to analyzeSentiment.py\<close>



end
